theory Spec2Isabelle
  imports Complex_Main
begin

section \<open>The OpenGL driver as seen from the wrapper\<close>

text \<open>
  \<^verbatim>\<open>arcade/gl/context.py\<close> and \<^verbatim>\<open>arcade/gl/program.py\<close> wrap the functions of
  \<^verbatim>\<open>pyglet.gl\<close>, which is not part of the sources. A driver call is an effect: a
  method that changes driver state returns, next to the new state of the object, the
  driver calls it issued, in the order of the source. What a driver call returns, or
  writes through a pointer, is an input of the model, so a theorem holds for every
  answer of the driver. A driver call itself returns normally.

  Python's unbounded integers are \<open>int\<close>, its floats are carried as \<open>real\<close> (the
  wrapper only stores and forwards them), its strings are \<open>string\<close>. Objects that are
  compared or shared by identity are named by a reference.
\<close>

type_synonym GLenum = int
type_synonym ref = nat

text \<open>
  The constants of \<^verbatim>\<open>pyglet.gl\<close> the modelled methods read. Their values are not in the
  sources, so the methods take them as a parameter.
\<close>

record gl_consts =
  GL_BLEND :: GLenum
  GL_DEPTH_TEST :: GLenum
  GL_CULL_FACE :: GLenum
  GL_PROGRAM_POINT_SIZE :: GLenum
  GL_FALSE :: int
  GL_COMPILE_STATUS :: GLenum
  GL_LINK_STATUS :: GLenum
  GL_INFO_LOG_LENGTH :: GLenum

text \<open>
  The values the OpenGL headers give these names; concrete evaluations use them.
\<close>

definition opengl :: gl_consts where
  "opengl = \<lparr> GL_BLEND = 0x0BE2, GL_DEPTH_TEST = 0x0B71, GL_CULL_FACE = 0x0B44,
      GL_PROGRAM_POINT_SIZE = 0x8642, GL_FALSE = 0, GL_COMPILE_STATUS = 0x8B81,
      GL_LINK_STATUS = 0x8B82, GL_INFO_LOG_LENGTH = 0x8B84 \<rparr>"

text \<open>The driver calls of the modelled methods, with the arguments the wrapper passes.\<close>

datatype gl_call =
    glEnable GLenum
  | glDisable GLenum
  | glBlendFunc int int
  | glPointSize real
  | glUseProgram int
  | glCreateShader GLenum
  | glShaderSource int string
  | glCompileShader int
  | glGetShaderiv int GLenum
  | glGetShaderInfoLog int int
  | glLinkProgram int
  | glGetProgramiv int GLenum
  | glGetProgramInfoLog int int

text \<open>The exceptions the modelled code raises, explicitly or through a failed lookup.\<close>

datatype py_error =
    ShaderException string
  | KeyError
  | AttributeError
  | TypeError
  | ZeroDivisionError

section \<open>ContextStats\<close>

text \<open>
  \<^verbatim>\<open>
  class ContextStats:
      def __init__(self, warn_threshold=100):
          self.warn_threshold = warn_threshold
          # (created, freed)
          self.texture = (0, 0)
          ...
  \<close>
\<close>

record ContextStats =
  warn_threshold :: int
  texture :: "int \<times> int"
  framebuffer :: "int \<times> int"
  buffer :: "int \<times> int"
  program :: "int \<times> int"
  vertex_array :: "int \<times> int"
  geometry :: "int \<times> int"

definition ContextStats_init :: "int \<Rightarrow> ContextStats" where
  "ContextStats_init threshold =
     \<lparr> warn_threshold = threshold, texture = (0, 0), framebuffer = (0, 0), buffer = (0, 0),
       program = (0, 0), vertex_array = (0, 0), geometry = (0, 0) \<rparr>"

text \<open>
  \<^verbatim>\<open>getattr(self, key)\<close> and \<^verbatim>\<open>setattr(self, key, value)\<close> address a field by its name.
  A field holds a counter pair or, for \<^verbatim>\<open>warn_threshold\<close>, a number. A name that is no
  field of the object is an \<^verbatim>\<open>AttributeError\<close> (the methods and built-in attributes of a
  Python object are not fields of the model; reading one as a pair fails as well).
\<close>

datatype attr = Counter "int \<times> int" | Threshold int

definition getattr :: "ContextStats \<Rightarrow> string \<Rightarrow> py_error + attr" where
  "getattr self key =
     (if key = ''warn_threshold'' then Inr (Threshold (warn_threshold self))
      else if key = ''texture'' then Inr (Counter (texture self))
      else if key = ''framebuffer'' then Inr (Counter (framebuffer self))
      else if key = ''buffer'' then Inr (Counter (buffer self))
      else if key = ''program'' then Inr (Counter (program self))
      else if key = ''vertex_array'' then Inr (Counter (vertex_array self))
      else if key = ''geometry'' then Inr (Counter (geometry self))
      else Inl AttributeError)"

text \<open>\<open>setattr\<close> is only reached with the name of a counter that \<open>getattr\<close> has read.\<close>

definition setattr :: "ContextStats \<Rightarrow> string \<Rightarrow> int \<times> int \<Rightarrow> ContextStats" where
  "setattr self key v =
     (if key = ''texture'' then self\<lparr> texture := v \<rparr>
      else if key = ''framebuffer'' then self\<lparr> framebuffer := v \<rparr>
      else if key = ''buffer'' then self\<lparr> buffer := v \<rparr>
      else if key = ''program'' then self\<lparr> program := v \<rparr>
      else if key = ''vertex_array'' then self\<lparr> vertex_array := v \<rparr>
      else if key = ''geometry'' then self\<lparr> geometry := v \<rparr>
      else self)"

text \<open>
  The arguments of the one \<^verbatim>\<open>LOG.debug\<close> call: key, threshold, created, freed, active.
\<close>

datatype log_call = LOG_debug string int int int int

text \<open>
  \<^verbatim>\<open>
  def incr(self, key):
      created, freed = getattr(self, key)
      setattr(self, key, (created + 1, freed))
      if created % self.warn_threshold == 0 and created > 0:
          LOG.debug("%s allocations passed threshold (%s) ...",
                    key, self.warn_threshold, created, freed, created - freed)

  def decr(self, key):
      created, freed = getattr(self, key)
      setattr(self, key, (created, freed + 1))
  \<close>
  Unpacking the number \<^verbatim>\<open>warn_threshold\<close> is a \<^verbatim>\<open>TypeError\<close>. The counter is stored
  before the remainder is taken, so a threshold of zero raises \<^verbatim>\<open>ZeroDivisionError\<close>
  on an object that is already updated: the result carries the outcome and the object.
\<close>

definition incr :: "ContextStats \<Rightarrow> string \<Rightarrow> (py_error + log_call list) \<times> ContextStats" where
  "incr self key =
     (case getattr self key of
        Inl e \<Rightarrow> (Inl e, self)
      | Inr (Threshold n) \<Rightarrow> (Inl TypeError, self)
      | Inr (Counter (created, freed)) \<Rightarrow>
          (let self' = setattr self key (created + 1, freed) in
           if warn_threshold self' = 0 then (Inl ZeroDivisionError, self')
           else if created mod warn_threshold self' = 0 \<and> created > 0
             then (Inr [LOG_debug key (warn_threshold self') created freed (created - freed)], self')
           else (Inr [], self')))"

definition decr :: "ContextStats \<Rightarrow> string \<Rightarrow> (py_error + unit) \<times> ContextStats" where
  "decr self key =
     (case getattr self key of
        Inl e \<Rightarrow> (Inl e, self)
      | Inr (Threshold n) \<Rightarrow> (Inl TypeError, self)
      | Inr (Counter (created, freed)) \<Rightarrow> (Inr (), setattr self key (created, freed + 1)))"

text \<open>The resource keys the library counts.\<close>

definition resource_keys :: "string list" where
  "resource_keys =
     [''texture'', ''framebuffer'', ''buffer'', ''program'', ''vertex_array'', ''geometry'']"

section \<open>Context\<close>

text \<open>
  \<^verbatim>\<open>Limits(self)\<close> reads every field from the driver (\<^verbatim>\<open>glGetIntegerv\<close>,
  \<^verbatim>\<open>glGetString\<close>); the object it builds is an input of the model. The two version
  numbers and the two strings are fields, the other integer limits are kept by name.
\<close>

record Limits =
  MINOR_VERSION :: int
  MAJOR_VERSION :: int
  VENDOR :: string
  RENDERER :: string
  int_limits :: "(string \<times> int) list"

text \<open>
  The attributes \<^verbatim>\<open>Context.__init__\<close> sets. A leading underscore of a Python name is
  written \<open>priv_\<close>. The window, the framebuffers and the programs are other objects:
  the context holds references to them.
\<close>

record Context =
  priv_window_ref :: ref
  limits :: Limits
  priv_gl_version :: "int \<times> int"
  active_program :: "ref option"
  active_framebuffer :: ref
  stats :: ContextStats
  priv_blend_func :: "int \<times> int"
  priv_point_size :: real
  priv_flags :: "GLenum set"

text \<open>Class constants of \<^verbatim>\<open>Context\<close>.\<close>

definition BLEND :: "gl_consts \<Rightarrow> GLenum" where
  "BLEND gl = GL_BLEND gl"

definition DEPTH_TEST :: "gl_consts \<Rightarrow> GLenum" where
  "DEPTH_TEST gl = GL_DEPTH_TEST gl"

definition CULL_FACE :: "gl_consts \<Rightarrow> GLenum" where
  "CULL_FACE gl = GL_CULL_FACE gl"

definition PROGRAM_POINT_SIZE :: "gl_consts \<Rightarrow> GLenum" where
  "PROGRAM_POINT_SIZE gl = GL_PROGRAM_POINT_SIZE gl"

definition BLEND_DEFAULT :: "int \<times> int" where
  "BLEND_DEFAULT = (0x0302, 0x0303)"

definition BLEND_ADDITIVE :: "int \<times> int" where
  "BLEND_ADDITIVE = (0x0001, 0x0001)"

definition BLEND_PREMULTIPLIED_ALPHA :: "int \<times> int" where
  "BLEND_PREMULTIPLIED_ALPHA = (0x0302, 0x0001)"

text \<open>
  The class attribute \<^verbatim>\<open>Context.active\<close> and the context objects, by identity.
\<close>

record py_heap =
  Context_active :: "ref option"
  contexts :: "ref \<rightharpoonup> Context"

text \<open>
  \<^verbatim>\<open>
  @classmethod
  def activate(cls, ctx):
      cls.active = ctx
  \<close>
\<close>

definition activate :: "ref \<Rightarrow> py_heap \<Rightarrow> py_heap" where
  "activate ctx h = h\<lparr> Context_active := Some ctx \<rparr>"

text \<open>
  \<^verbatim>\<open>
  def __init__(self, window):
      self._window_ref = weakref.ref(window)
      self.limits = Limits(self)
      self._gl_version = (self.limits.MAJOR_VERSION, self.limits.MINOR_VERSION)
      Context.activate(self)
      self.active_program = None
      self.active_framebuffer = window
      self.stats = ContextStats(warn_threshold=1000)
      self._blend_func = self.BLEND_DEFAULT
      self._point_size = 1.0
      self._flags = set()
  \<close>
  \<open>self\<close> is the identity of the object being initialised, \<open>lims\<close> the limits the
  driver answered. A record has all its fields at once, so the object is stored when
  the last attribute is set.
\<close>

definition new_Context :: "ref \<Rightarrow> Limits \<Rightarrow> Context" where
  "new_Context window lims =
     \<lparr> priv_window_ref = window,
       limits = lims,
       priv_gl_version = (MAJOR_VERSION lims, MINOR_VERSION lims),
       active_program = None,
       active_framebuffer = window,
       stats = ContextStats_init 1000,
       priv_blend_func = BLEND_DEFAULT,
       priv_point_size = 1.0,
       priv_flags = {} \<rparr>"

definition Context_init :: "ref \<Rightarrow> ref \<Rightarrow> Limits \<Rightarrow> py_heap \<Rightarrow> py_heap" where
  "Context_init self window lims h =
     (let h1 = activate self h
      in h1\<lparr> contexts := (contexts h1)(self \<mapsto> new_Context window lims) \<rparr>)"

text \<open>
  \<^verbatim>\<open>
  def enable(self, *args):
      self._flags.update(args)
      for flag in args:
          gl.glEnable(flag)

  def disable(self, *args):
      self._flags -= set(args)
      for flag in args:
          gl.glDisable(flag)

  def is_enabled(self, flag) -> bool:
      return flag in self._flags
  \<close>
\<close>

definition enable :: "GLenum list \<Rightarrow> Context \<Rightarrow> Context \<times> gl_call list" where
  "enable args self = (self\<lparr> priv_flags := priv_flags self \<union> set args \<rparr>, map glEnable args)"

definition disable :: "GLenum list \<Rightarrow> Context \<Rightarrow> Context \<times> gl_call list" where
  "disable args self = (self\<lparr> priv_flags := priv_flags self - set args \<rparr>, map glDisable args)"

definition is_enabled :: "Context \<Rightarrow> GLenum \<Rightarrow> bool" where
  "is_enabled self flag = (flag \<in> priv_flags self)"

text \<open>
  \<^verbatim>\<open>
  def enable_only(self, *args):
      self._flags = set(args)
      if self.BLEND in self._flags:
          gl.glEnable(self.BLEND)
      else:
          gl.glDisable(self.BLEND)
      ... (the same for DEPTH_TEST, CULL_FACE, PROGRAM_POINT_SIZE)
  \<close>
\<close>

definition switch :: "GLenum set \<Rightarrow> GLenum \<Rightarrow> gl_call" where
  "switch flags flag = (if flag \<in> flags then glEnable flag else glDisable flag)"

definition enable_only :: "gl_consts \<Rightarrow> GLenum list \<Rightarrow> Context \<Rightarrow> Context \<times> gl_call list" where
  "enable_only gl args self =
     (let self' = self\<lparr> priv_flags := set args \<rparr>
      in (self',
          [switch (priv_flags self') (BLEND gl),
           switch (priv_flags self') (DEPTH_TEST gl),
           switch (priv_flags self') (CULL_FACE gl),
           switch (priv_flags self') (PROGRAM_POINT_SIZE gl)]))"

text \<open>
  \<^verbatim>\<open>
  @property
  def blend_func(self): return self._blend_func

  @blend_func.setter
  def blend_func(self, value):
      self._blend_func = value
      gl.glBlendFunc(value[0], value[1])

  @property
  def point_size(self): return self._point_size

  @point_size.setter
  def point_size(self, value):
      gl.glPointSize(self._point_size)
      self._point_size = value
  \<close>
\<close>

definition blend_func :: "Context \<Rightarrow> int \<times> int" where
  "blend_func self = priv_blend_func self"

definition blend_func_setter :: "int \<times> int \<Rightarrow> Context \<Rightarrow> Context \<times> gl_call list" where
  "blend_func_setter v self =
     (self\<lparr> priv_blend_func := v \<rparr>, [glBlendFunc (fst v) (snd v)])"

definition point_size :: "Context \<Rightarrow> real" where
  "point_size self = priv_point_size self"

definition point_size_setter :: "real \<Rightarrow> Context \<Rightarrow> Context \<times> gl_call list" where
  "point_size_setter v self =
     (self\<lparr> priv_point_size := v \<rparr>, [glPointSize (priv_point_size self)])"

text \<open>A context as \<^verbatim>\<open>__init__\<close> leaves it, for concrete evaluations.\<close>

definition example_limits :: Limits where
  "example_limits =
     \<lparr> MINOR_VERSION = 3, MAJOR_VERSION = 3, VENDOR = ''vendor'', RENDERER = ''renderer'',
       int_limits = [(''MAX_TEXTURE_SIZE'', 16384)] \<rparr>"

definition example_ctx :: Context where
  "example_ctx = new_Context 0 example_limits"

section \<open>Program\<close>

text \<open>
  \<^verbatim>\<open>Uniform\<close> (\<^verbatim>\<open>arcade/gl/uniform.py\<close>) is not part of the sources. A uniform is
  represented by the arguments \<^verbatim>\<open>_introspect_uniforms\<close> constructs it with:
  \<^verbatim>\<open>Uniform(self._glo, u_location, u_name, u_type, u_size)\<close>. What its \<^verbatim>\<open>getter\<close>
  returns is an input of the model; a call of its \<^verbatim>\<open>setter\<close> is an effect.
\<close>

record Uniform =
  uniform_glo :: int
  uniform_location :: int
  uniform_name :: string
  uniform_type :: GLenum
  uniform_size :: int

text \<open>
  The attributes of a \<^verbatim>\<open>Program\<close> the modelled methods read. \<^verbatim>\<open>Program\<close> defines no
  \<^verbatim>\<open>__eq__\<close>, so \<^verbatim>\<open>!=\<close> compares identities: \<open>oid\<close> is the identity of the object.
  The context \<^verbatim>\<open>self._ctx\<close> refers to is passed to the methods that use it.
\<close>

record Program =
  oid :: ref
  priv_glo :: int
  priv_uniforms :: "string \<rightharpoonup> Uniform"
  priv_out_attributes :: "string list"
  priv_geometry_info :: "int \<times> int \<times> int"
  attribute_key :: string

text \<open>The effects of \<^verbatim>\<open>__setitem__\<close>: driver calls and the call of a uniform's setter.\<close>

datatype 'v effect = GL gl_call | uniform_setter Uniform 'v

text \<open>
  \<^verbatim>\<open>
  def use(self):
      if self._ctx.active_program != self:
          gl.glUseProgram(self._glo)
          self._ctx.active_program = self
  \<close>
\<close>

definition use :: "Program \<Rightarrow> Context \<Rightarrow> Context \<times> gl_call list" where
  "use self ctx =
     (if active_program ctx \<noteq> Some (oid self)
      then (ctx\<lparr> active_program := Some (oid self) \<rparr>, [glUseProgram (priv_glo self)])
      else (ctx, []))"

text \<open>
  \<^verbatim>\<open>
  def __getitem__(self, item):
      try:
          uniform = self._uniforms[item]
      except KeyError:
          raise ShaderException(f"Uniform with the name `{item}` was not found.")
      return uniform.getter()

  def __setitem__(self, key, value):
      if self._ctx.active_program != self:
          self.use()
      try:
          uniform = self._uniforms[key]
      except KeyError:
          raise ShaderException(f"Uniform with the name `{key}` was not found.")
      uniform.setter(value)
  \<close>
\<close>

definition not_found :: "string \<Rightarrow> py_error" where
  "not_found item =
     ShaderException (''Uniform with the name '' @ [CHR 0x60] @ item @ [CHR 0x60] @ '' was not found.'')"

definition getitem :: "(Uniform \<Rightarrow> 'v) \<Rightarrow> Program \<Rightarrow> string \<Rightarrow> py_error + 'v" where
  "getitem getter self item =
     (case priv_uniforms self item of
        None \<Rightarrow> Inl (not_found item)
      | Some uniform \<Rightarrow> Inr (getter uniform))"

definition setitem ::
  "Program \<Rightarrow> string \<Rightarrow> 'v \<Rightarrow> Context \<Rightarrow> (py_error + unit) \<times> Context \<times> 'v effect list" where
  "setitem self key v ctx =
     (let (ctx', calls) =
            (if active_program ctx \<noteq> Some (oid self) then use self ctx else (ctx, []))
      in case priv_uniforms self key of
           None \<Rightarrow> (Inl (not_found key), ctx', map GL calls)
         | Some uniform \<Rightarrow> (Inr (), ctx', map GL calls @ [uniform_setter uniform v]))"

text \<open>
  \<^verbatim>\<open>
  def _introspect_uniforms(self):
      active_uniforms = gl.GLint(0)
      gl.glGetProgramiv(self._glo, gl.GL_ACTIVE_UNIFORMS, byref(active_uniforms))
      for index in range(active_uniforms.value):
          u_name, u_type, u_size = self._query_uniform(index)
          u_location = gl.glGetUniformLocation(self._glo, u_name.encode())
          if u_location == -1:
              continue
          u_name = u_name.replace('[0]', '')  # Remove array suffix
          self._uniforms[u_name] = Uniform(self._glo, u_location, u_name, u_type, u_size)
  \<close>
  The driver's answers for one index are the name, type and size of the uniform and its
  location; the list of them, in index order, is the input. Only the map is modelled.
  \<open>remove_index0\<close> is \<^verbatim>\<open>replace('[0]', '')\<close>: every occurrence, scanning from the left.
\<close>

type_synonym active_uniform = "string \<times> GLenum \<times> int \<times> int"

fun remove_index0 :: "string \<Rightarrow> string" where
  "remove_index0 [] = []"
| "remove_index0 (c # cs) =
     (if c = CHR ''['' \<and> take 2 cs = ''0]'' then remove_index0 (drop 2 cs)
      else c # remove_index0 cs)"

fun introspect_loop ::
  "int \<Rightarrow> active_uniform list \<Rightarrow> (string \<rightharpoonup> Uniform) \<Rightarrow> (string \<rightharpoonup> Uniform)" where
  "introspect_loop glo [] m = m"
| "introspect_loop glo ((u_name, u_type, u_size, u_location) # rest) m =
     (if u_location = -1 then introspect_loop glo rest m
      else (let u_name' = remove_index0 u_name
            in introspect_loop glo rest
                 (m(u_name' \<mapsto> \<lparr> uniform_glo = glo, uniform_location = u_location,
                       uniform_name = u_name', uniform_type = u_type, uniform_size = u_size \<rparr>))))"

definition introspect_uniforms :: "active_uniform list \<Rightarrow> Program \<Rightarrow> Program" where
  "introspect_uniforms answers self =
     self\<lparr> priv_uniforms := introspect_loop (priv_glo self) answers (priv_uniforms self) \<rparr>"

text \<open>
  The names a program can be indexed with after introspection: those the driver
  reported with a location other than -1, with every \<^verbatim>\<open>[0]\<close> removed.
\<close>

definition reported_names :: "active_uniform list \<Rightarrow> string set" where
  "reported_names answers =
     set (map (\<lambda>(n, t, sz, loc). remove_index0 n)
            (filter (\<lambda>(n, t, sz, loc). loc \<noteq> -1) answers))"

subsection \<open>Compiling and linking\<close>











text \<open>Whether an outcome is a raised \<^verbatim>\<open>ShaderException\<close>.\<close>

fun raises_ShaderException :: "py_error + 'a \<Rightarrow> bool" where
  "raises_ShaderException (Inl (ShaderException m)) = True"
| "raises_ShaderException r = False"


definition example_program :: Program where
  "example_program =
     introspect_uniforms
       [(''Projection'', 0x8B5C, 1, 0), (''lights[0]'', 0x8B52, 4, 1), (''block_member'', 0x1406, 1, -1)]
       \<lparr> oid = 7, priv_glo = 3, priv_uniforms = Map.empty, priv_out_attributes = [],
         priv_geometry_info = (0, 0, 0), attribute_key = ''in_vert[5126/2]'' \<rparr>"

section \<open>Properties of Context\<close>

lemma enable_flags: "priv_flags (fst (enable fs c)) = priv_flags c \<union> set fs"
  by (simp add: enable_def)

lemma disable_flags: "priv_flags (fst (disable fs c)) = priv_flags c - set fs"
  by (simp add: disable_def)

text \<open>
  Claim C3. After \<open>enable fs\<close> every flag of \<open>fs\<close> is enabled, every other flag is as
  before, and the driver calls are one \<open>glEnable\<close> per element of \<open>fs\<close>, in order;
  after \<open>disable fs\<close> every flag of \<open>fs\<close> is not enabled, every other flag is as before,
  and the driver calls are one \<open>glDisable\<close> per element of \<open>fs\<close>.
\<close>

theorem enable_disable_flags:
  "(\<forall>f \<in> set fs. is_enabled (fst (enable fs c)) f) \<and>
   (\<forall>f. f \<notin> set fs \<longrightarrow> is_enabled (fst (enable fs c)) f = is_enabled c f) \<and>
   snd (enable fs c) = map glEnable fs \<and>
   (\<forall>f \<in> set fs. \<not> is_enabled (fst (disable fs c)) f) \<and>
   (\<forall>f. f \<notin> set fs \<longrightarrow> is_enabled (fst (disable fs c)) f = is_enabled c f) \<and>
   snd (disable fs c) = map glDisable fs"
proof -
  have "snd (enable fs c) = map glEnable fs" "snd (disable fs c) = map glDisable fs"
    by (simp_all add: enable_def disable_def)
  moreover have "\<forall>f \<in> set fs. is_enabled (fst (enable fs c)) f"
    by (simp add: is_enabled_def enable_flags)
  moreover have "\<forall>f. f \<notin> set fs \<longrightarrow> is_enabled (fst (enable fs c)) f = is_enabled c f"
    by (simp add: is_enabled_def enable_flags)
  moreover have "\<forall>f \<in> set fs. \<not> is_enabled (fst (disable fs c)) f"
    by (simp add: is_enabled_def disable_flags)
  moreover have "\<forall>f. f \<notin> set fs \<longrightarrow> is_enabled (fst (disable fs c)) f = is_enabled c f"
    by (simp add: is_enabled_def disable_flags)
  ultimately show ?thesis by blast
qed

theorem enable_disable_flags_witness:
  "0x0BE2 \<in> set [0x0BE2, 0x0B71 :: int] \<and> 0x0B44 \<notin> set [0x0BE2, 0x0B71 :: int] \<and>
   is_enabled (fst (enable [0x0BE2, 0x0B71] example_ctx)) 0x0BE2 \<and>
   is_enabled (fst (enable [0x0BE2, 0x0B71] example_ctx)) 0x0B44
     = is_enabled example_ctx 0x0B44 \<and>
   snd (enable [0x0BE2, 0x0B71] example_ctx) = [glEnable 0x0BE2, glEnable 0x0B71] \<and>
   \<not> is_enabled (fst (disable [0x0BE2, 0x0B71] example_ctx)) 0x0B71 \<and>
   snd (disable [0x0BE2, 0x0B71] example_ctx) = [glDisable 0x0BE2, glDisable 0x0B71]"
  using enable_disable_flags [of "[0x0BE2, 0x0B71]" example_ctx] by simp

lemma enable_only_flags: "priv_flags (fst (enable_only gl fs c)) = set fs"
  by (simp add: enable_only_def Let_def)

lemma enable_only_calls:
  "snd (enable_only gl fs c) =
     map (switch (set fs)) [BLEND gl, DEPTH_TEST gl, CULL_FACE gl, PROGRAM_POINT_SIZE gl]"
  by (simp add: enable_only_def Let_def)

lemma glEnable_switch: "(glEnable f \<in> switch F ` G) = (f \<in> F \<and> f \<in> G)"
  by (auto simp: switch_def image_iff)

lemma glDisable_switch: "(glDisable f \<in> switch F ` G) = (f \<notin> F \<and> f \<in> G)"
  by (auto simp: switch_def image_iff)

text \<open>
  Claim C1, as the code has it. After \<open>enable_only fs\<close> a flag is enabled exactly when
  it is in \<open>fs\<close>. The driver calls are four, one for each of \<open>BLEND\<close>, \<open>DEPTH_TEST\<close>,
  \<open>CULL_FACE\<close> and \<open>PROGRAM_POINT_SIZE\<close> in this order: \<open>glEnable\<close> when the flag is in
  \<open>fs\<close>, \<open>glDisable\<close> when it is not. So \<open>glEnable f\<close> is issued exactly for the flags
  of \<open>fs\<close> among these four, and \<open>glDisable f\<close> exactly for those of the four that are
  not in \<open>fs\<close>, whatever was recorded before.
\<close>

theorem enable_only_known_flags:
  "(\<forall>f. is_enabled (fst (enable_only gl fs c)) f = (f \<in> set fs)) \<and>
   snd (enable_only gl fs c) =
     map (\<lambda>f. if f \<in> set fs then glEnable f else glDisable f)
       [BLEND gl, DEPTH_TEST gl, CULL_FACE gl, PROGRAM_POINT_SIZE gl] \<and>
   (\<forall>f. (glEnable f \<in> set (snd (enable_only gl fs c))) =
        (f \<in> set fs \<and> f \<in> {BLEND gl, DEPTH_TEST gl, CULL_FACE gl, PROGRAM_POINT_SIZE gl})) \<and>
   (\<forall>f. (glDisable f \<in> set (snd (enable_only gl fs c))) =
        (f \<notin> set fs \<and> f \<in> {BLEND gl, DEPTH_TEST gl, CULL_FACE gl, PROGRAM_POINT_SIZE gl}))"
proof -
  let ?known = "[BLEND gl, DEPTH_TEST gl, CULL_FACE gl, PROGRAM_POINT_SIZE gl]"
  have flags: "\<forall>f. is_enabled (fst (enable_only gl fs c)) f = (f \<in> set fs)"
    by (simp add: is_enabled_def enable_only_flags)
  have calls: "snd (enable_only gl fs c) =
      map (\<lambda>f. if f \<in> set fs then glEnable f else glDisable f) ?known"
    by (simp add: enable_only_calls switch_def)
  have set_calls: "set (snd (enable_only gl fs c)) = switch (set fs) ` set ?known"
    by (simp only: enable_only_calls set_map)
  have en: "\<forall>f. (glEnable f \<in> set (snd (enable_only gl fs c))) = (f \<in> set fs \<and> f \<in> set ?known)"
    by (simp only: set_calls glEnable_switch) simp
  have dis: "\<forall>f. (glDisable f \<in> set (snd (enable_only gl fs c))) = (f \<notin> set fs \<and> f \<in> set ?known)"
    by (simp only: set_calls glDisable_switch) simp
  from flags calls en dis show ?thesis by simp
qed

text \<open>
  The claim as it is written fails for a flag outside the four: \<open>0x0C11\<close>
  (\<^verbatim>\<open>GL_SCISSOR_TEST\<close>) passed to \<open>enable_only\<close> is recorded as enabled and no
  \<open>glEnable\<close> is issued for it; recorded by \<open>enable\<close> and then dropped by
  \<open>enable_only\<close>, it receives no \<open>glDisable\<close>.
\<close>

theorem enable_only_unknown_flag:
  "is_enabled (fst (enable_only opengl [0x0C11] example_ctx)) 0x0C11 \<and>
   glEnable 0x0C11 \<notin> set (snd (enable_only opengl [0x0C11] example_ctx)) \<and>
   is_enabled (fst (enable [0x0C11] example_ctx)) 0x0C11 \<and>
   \<not> is_enabled (fst (enable_only opengl [] (fst (enable [0x0C11] example_ctx)))) 0x0C11 \<and>
   glDisable 0x0C11 \<notin> set (snd (enable_only opengl [] (fst (enable [0x0C11] example_ctx))))"
  by (simp add: enable_only_def enable_def is_enabled_def switch_def opengl_def
      BLEND_def DEPTH_TEST_def CULL_FACE_def PROGRAM_POINT_SIZE_def Let_def)

text \<open>
  Claim C7. Assigning the pair \<open>(src, dst)\<close> to \<open>blend_func\<close> issues the one driver call
  \<open>glBlendFunc src dst\<close>, and reading \<open>blend_func\<close> afterwards returns \<open>(src, dst)\<close>.
\<close>

theorem blend_func_roundtrip:
  "snd (blend_func_setter (src, dst) c) = [glBlendFunc src dst] \<and>
   blend_func (fst (blend_func_setter (src, dst) c)) = (src, dst)"
  by (simp add: blend_func_setter_def blend_func_def)

text \<open>
  Claim C2 at a concrete input. Assigning 5 to \<open>point_size\<close> on a context whose point
  size is 1 issues \<open>glPointSize 1\<close>, the value before the assignment, and no
  \<open>glPointSize 5\<close>; reading \<open>point_size\<close> afterwards returns 5.
\<close>

theorem point_size_setter_stale:
  "snd (point_size_setter 5 example_ctx) = [glPointSize 1] \<and>
   glPointSize 5 \<notin> set (snd (point_size_setter 5 example_ctx)) \<and>
   point_size (fst (point_size_setter 5 example_ctx)) = 5"
  by (simp add: point_size_setter_def point_size_def example_ctx_def new_Context_def)

text \<open>
  Claim C10. After \<open>Context_init\<close> the class attribute \<open>Context.active\<close> is the new
  context; its \<open>blend_func\<close> is \<open>BLEND_DEFAULT = (0x0302, 0x0303)\<close>, its \<open>point_size\<close>
  is 1.0, its \<open>active_program\<close> is \<open>None\<close>, its set of flags is empty and no flag is
  enabled.
\<close>

theorem Context_init_state:
  "Context_active (Context_init self window lims h) = Some self \<and>
   (\<exists>c. contexts (Context_init self window lims h) self = Some c \<and>
        blend_func c = BLEND_DEFAULT \<and> blend_func c = (0x0302, 0x0303) \<and>
        point_size c = 1.0 \<and> active_program c = None \<and>
        priv_flags c = {} \<and> (\<forall>f. \<not> is_enabled c f))"
  by (simp add: Context_init_def activate_def new_Context_def blend_func_def point_size_def
      is_enabled_def BLEND_DEFAULT_def Let_def)

section \<open>Properties of ContextStats\<close>

lemma getattr_counter:
  assumes "k \<in> set resource_keys"
  shows "\<exists>created freed. getattr s k = Inr (Counter (created, freed))"
proof -
  have "\<exists>c. getattr s k = Inr (Counter c)"
    using assms by (auto simp: resource_keys_def getattr_def)
  then show ?thesis by auto
qed

lemma incr_state:
  "getattr s k = Inr (Counter (created, freed)) \<Longrightarrow> snd (incr s k) = setattr s k (created + 1, freed)"
  by (simp add: incr_def Let_def)

lemma decr_state:
  "getattr s k = Inr (Counter (created, freed)) \<Longrightarrow> snd (decr s k) = setattr s k (created, freed + 1)"
  by (simp add: decr_def)

lemma getattr_setattr_same:
  "k \<in> set resource_keys \<Longrightarrow> getattr (setattr s k v) k = Inr (Counter v)"
  by (auto simp: resource_keys_def getattr_def setattr_def)

lemma getattr_setattr_other:
  "k' \<noteq> k \<Longrightarrow> getattr (setattr s k v) k' = getattr s k'"
  by (auto simp: getattr_def setattr_def)

lemma warn_threshold_setattr: "warn_threshold (setattr s k v) = warn_threshold s"
  by (simp add: setattr_def)

text \<open>
  Claim C4. For a resource key \<open>k\<close> (texture, framebuffer, buffer, program,
  vertex_array, geometry) the counter \<open>k\<close> is a pair \<open>(created, freed)\<close>; after
  \<open>incr k\<close> it is \<open>(created + 1, freed)\<close>, after \<open>decr k\<close> it is
  \<open>(created, freed + 1)\<close>, and both leave every attribute of another name, so every
  other counter and \<open>warn_threshold\<close>, as it was. This is the state of the object also
  when \<open>incr\<close> ends in \<^verbatim>\<open>ZeroDivisionError\<close>.
\<close>

theorem incr_decr_frame:
  assumes "k \<in> set resource_keys"
  shows "\<exists>created freed.
      getattr s k = Inr (Counter (created, freed)) \<and>
      getattr (snd (incr s k)) k = Inr (Counter (created + 1, freed)) \<and>
      getattr (snd (decr s k)) k = Inr (Counter (created, freed + 1)) \<and>
      (\<forall>k'. k' \<noteq> k \<longrightarrow> getattr (snd (incr s k)) k' = getattr s k' \<and>
                        getattr (snd (decr s k)) k' = getattr s k') \<and>
      warn_threshold (snd (incr s k)) = warn_threshold s \<and>
      warn_threshold (snd (decr s k)) = warn_threshold s"
proof -
  from assms obtain created freed where g: "getattr s k = Inr (Counter (created, freed))"
    using getattr_counter by blast
  have i: "snd (incr s k) = setattr s k (created + 1, freed)" using g by (rule incr_state)
  have d: "snd (decr s k) = setattr s k (created, freed + 1)" using g by (rule decr_state)
  have "getattr (snd (incr s k)) k = Inr (Counter (created + 1, freed))"
    unfolding i using assms by (rule getattr_setattr_same)
  moreover have "getattr (snd (decr s k)) k = Inr (Counter (created, freed + 1))"
    unfolding d using assms by (rule getattr_setattr_same)
  moreover have "\<forall>k'. k' \<noteq> k \<longrightarrow> getattr (snd (incr s k)) k' = getattr s k' \<and>
                        getattr (snd (decr s k)) k' = getattr s k'"
    unfolding i d by (simp add: getattr_setattr_other)
  moreover have "warn_threshold (snd (incr s k)) = warn_threshold s"
    "warn_threshold (snd (decr s k)) = warn_threshold s"
    unfolding i d by (rule warn_threshold_setattr)+
  ultimately show ?thesis using g by blast
qed

theorem incr_decr_frame_witness:
  "getattr (ContextStats_init 1000) ''program'' = Inr (Counter (0, 0)) \<and>
   getattr (snd (incr (ContextStats_init 1000) ''program'')) ''program'' = Inr (Counter (1, 0)) \<and>
   getattr (snd (decr (ContextStats_init 1000) ''program'')) ''program'' = Inr (Counter (0, 1)) \<and>
   getattr (snd (incr (ContextStats_init 1000) ''program'')) ''texture''
     = getattr (ContextStats_init 1000) ''texture'' \<and>
   warn_threshold (snd (incr (ContextStats_init 1000) ''program'')) = 1000"
proof -
  have k: "''program'' \<in> set resource_keys" by (simp add: resource_keys_def)
  have g: "getattr (ContextStats_init 1000) ''program'' = Inr (Counter (0, 0))"
    by (simp add: getattr_def ContextStats_init_def)
  have w: "warn_threshold (ContextStats_init 1000) = 1000"
    by (simp add: ContextStats_init_def)
  have n: "''texture'' \<noteq> ''program''" by simp
  from incr_decr_frame [OF k, of "ContextStats_init 1000"]
  obtain created freed where
    c: "getattr (ContextStats_init 1000) ''program'' = Inr (Counter (created, freed))" and
    i: "getattr (snd (incr (ContextStats_init 1000) ''program'')) ''program''
          = Inr (Counter (created + 1, freed))" and
    d: "getattr (snd (decr (ContextStats_init 1000) ''program'')) ''program''
          = Inr (Counter (created, freed + 1))" and
    o: "\<forall>k'. k' \<noteq> ''program'' \<longrightarrow>
          getattr (snd (incr (ContextStats_init 1000) ''program'')) k'
            = getattr (ContextStats_init 1000) k' \<and>
          getattr (snd (decr (ContextStats_init 1000) ''program'')) k'
            = getattr (ContextStats_init 1000) k'" and
    t: "warn_threshold (snd (incr (ContextStats_init 1000) ''program''))
          = warn_threshold (ContextStats_init 1000)"
    by blast
  from c g have "created = 0" "freed = 0" by simp_all
  with i d have "getattr (snd (incr (ContextStats_init 1000) ''program'')) ''program'' = Inr (Counter (1, 0))"
    "getattr (snd (decr (ContextStats_init 1000) ''program'')) ''program'' = Inr (Counter (0, 1))"
    by simp_all
  moreover from o [rule_format, OF n]
  have "getattr (snd (incr (ContextStats_init 1000) ''program'')) ''texture''
     = getattr (ContextStats_init 1000) ''texture''" by (rule conjunct1)
  ultimately show ?thesis using g t w by simp
qed

section \<open>Properties of Program\<close>

text \<open>
  Claim C9. After \<open>use\<close> the context's active program is the program; \<open>glUseProgram\<close>
  is issued when the program was not the active one and no driver call otherwise; a
  second \<open>use\<close> right after the first issues no driver call and leaves the context as
  it is.
\<close>

theorem use_idempotent:
  "active_program (fst (use p c)) = Some (oid p) \<and>
   snd (use p c) = (if active_program c = Some (oid p) then [] else [glUseProgram (priv_glo p)]) \<and>
   use p (fst (use p c)) = (fst (use p c), [])"
  by (simp add: use_def)

text \<open>
  The keys of \<open>_uniforms\<close> after \<open>_introspect_uniforms\<close> are the keys it had before and
  the reported names; \<^verbatim>\<open>__init__\<close> starts from the empty dictionary.
\<close>

lemma dom_introspect_loop:
  "dom (introspect_loop glo answers m) = dom m \<union> reported_names answers"
proof (induction answers arbitrary: m)
  case Nil
  show ?case by (simp add: reported_names_def)
next
  case (Cons a answers)
  obtain n t sz loc where a: "a = (n, t, sz, loc)" by (cases a) auto
  have IH: "\<And>m. dom (introspect_loop glo answers m) = dom m \<union> reported_names answers"
    by (rule Cons.IH)
  show ?case
  proof (cases "loc = -1")
    case True
    then have "reported_names (a # answers) = reported_names answers"
      using a by (simp add: reported_names_def)
    moreover have "introspect_loop glo (a # answers) m = introspect_loop glo answers m"
      using a True by simp
    ultimately show ?thesis by (simp only: IH)
  next
    case False
    let ?u = "\<lparr> uniform_glo = glo, uniform_location = loc, uniform_name = remove_index0 n,
                uniform_type = t, uniform_size = sz \<rparr>"
    have "reported_names (a # answers) = insert (remove_index0 n) (reported_names answers)"
      using a False by (simp add: reported_names_def)
    moreover have "introspect_loop glo (a # answers) m
        = introspect_loop glo answers (m(remove_index0 n \<mapsto> ?u))"
      using a False by (simp add: Let_def)
    ultimately show ?thesis by (simp only: IH dom_fun_upd) simp
  qed
qed

lemma introspected_keys:
  "dom (priv_uniforms (introspect_uniforms answers (p\<lparr> priv_uniforms := Map.empty \<rparr>)))
     = reported_names answers"
  by (simp add: introspect_uniforms_def dom_introspect_loop)

lemma setitem_found:
  "priv_uniforms p s = Some u \<Longrightarrow>
     setitem p s v c = (Inr (), fst (use p c), map GL (snd (use p c)) @ [uniform_setter u v])"
  by (simp add: setitem_def use_def)

lemma setitem_missing:
  "priv_uniforms p s = None \<Longrightarrow>
     setitem p s v c = (Inl (not_found s), fst (use p c), map GL (snd (use p c)))"
  by (simp add: setitem_def use_def)

lemma raises_not_found: "raises_ShaderException (Inl (not_found s))"
  by (simp add: not_found_def)

text \<open>
  Claim C5. Reading \<open>p[s]\<close> returns what the getter of the uniform stored under \<open>s\<close>
  produces when \<open>s\<close> is a key of the introspected uniforms of \<open>p\<close>, and raises
  \<^verbatim>\<open>ShaderException\<close> exactly when it is not. Assigning \<open>p[s] = v\<close> raises
  \<^verbatim>\<open>ShaderException\<close> exactly when \<open>s\<close> is not such a key, and then calls no setter;
  otherwise it returns normally and its last effect is the call of that uniform's
  setter with \<open>v\<close>.
\<close>

theorem uniform_access:
  "(\<forall>u. priv_uniforms p s = Some u \<longrightarrow>
        getitem getter p s = Inr (getter u) \<and>
        fst (setitem p s v c) = Inr () \<and>
        (\<exists>calls. snd (snd (setitem p s v c)) = map GL calls @ [uniform_setter u v])) \<and>
   (s \<notin> dom (priv_uniforms p) \<longrightarrow>
        raises_ShaderException (getitem getter p s) \<and>
        (\<forall>u' v'. uniform_setter u' v' \<notin> set (snd (snd (setitem p s v c))))) \<and>
   raises_ShaderException (fst (setitem p s v c)) = (s \<notin> dom (priv_uniforms p)) \<and>
   raises_ShaderException (getitem getter p s) = (s \<notin> dom (priv_uniforms p))"
proof (cases "priv_uniforms p s")
  case None
  then have "s \<notin> dom (priv_uniforms p)" by (simp add: domIff)
  moreover have "raises_ShaderException (getitem getter p s)"
    using None by (simp add: getitem_def raises_not_found)
  moreover have "raises_ShaderException (fst (setitem p s v c))"
    using None by (simp add: setitem_missing raises_not_found)
  moreover have "\<forall>u' v'. uniform_setter u' v' \<notin> set (snd (snd (setitem p s v c)))"
    using None by (auto simp: setitem_missing)
  ultimately show ?thesis using None by simp
next
  case (Some u)
  then have "s \<in> dom (priv_uniforms p)" by (simp add: domIff)
  moreover have "getitem getter p s = Inr (getter u)"
    using Some by (simp add: getitem_def)
  moreover have "setitem p s v c = (Inr (), fst (use p c), map GL (snd (use p c)) @ [uniform_setter u v])"
    using Some by (rule setitem_found)
  ultimately show ?thesis using Some by auto
qed

theorem uniform_access_witness:
  "getitem (\<lambda>u. uniform_location u) example_program ''lights'' = Inr 1 \<and>
   fst (setitem example_program ''lights'' (7::int) example_ctx) = Inr () \<and>
   raises_ShaderException (getitem (\<lambda>u. uniform_location u) example_program ''lights[0]'') \<and>
   raises_ShaderException (fst (setitem example_program ''lights[0]'' (7::int) example_ctx))"
proof -
  have found: "priv_uniforms example_program ''lights'' =
      Some \<lparr> uniform_glo = 3, uniform_location = 1, uniform_name = ''lights'',
             uniform_type = 0x8B52, uniform_size = 4 \<rparr>"
    by (simp add: example_program_def introspect_uniforms_def Let_def)
  have missing: "''lights[0]'' \<notin> dom (priv_uniforms example_program)"
    by (simp add: example_program_def introspect_uniforms_def domIff Let_def)
  from uniform_access [of example_program "''lights''" "\<lambda>u. uniform_location u" "7::int" example_ctx]
    uniform_access [of example_program "''lights[0]''" "\<lambda>u. uniform_location u" "7::int" example_ctx]
    found missing
  show ?thesis by simp
qed

text \<open>
  Claim C8. When \<open>key\<close> is not a key of the uniforms of \<open>p\<close> and \<open>p\<close> is not the
  active program of the context, \<open>p[key] = v\<close> raises \<^verbatim>\<open>ShaderException\<close> and the
  context is changed all the same: its active program is now \<open>p\<close>, and the driver has
  received \<open>glUseProgram\<close>, because \<open>use\<close> runs before the lookup.
\<close>

theorem setitem_failure_activates:
  assumes "priv_uniforms p key = None" and "active_program c \<noteq> Some (oid p)"
  shows "raises_ShaderException (fst (setitem p key v c)) \<and>
         active_program (fst (snd (setitem p key v c))) = Some (oid p) \<and>
         active_program (fst (snd (setitem p key v c))) \<noteq> active_program c \<and>
         snd (snd (setitem p key v c)) = [GL (glUseProgram (priv_glo p))]"
  using assms by (simp add: setitem_missing raises_not_found use_def)

theorem setitem_failure_activates_witness:
  "active_program example_ctx = None \<and>
   raises_ShaderException (fst (setitem example_program ''nope'' (7::int) example_ctx)) \<and>
   active_program (fst (snd (setitem example_program ''nope'' (7::int) example_ctx))) = Some 7"
proof -
  have missing: "priv_uniforms example_program ''nope'' = None"
    by (simp add: example_program_def introspect_uniforms_def Let_def)
  have inactive: "active_program example_ctx \<noteq> Some (oid example_program)"
    by (simp add: example_ctx_def new_Context_def)
  have "oid example_program = 7" by (simp add: example_program_def introspect_uniforms_def Let_def)
  moreover have "active_program example_ctx = None" by (simp add: example_ctx_def new_Context_def)
  ultimately show ?thesis
    using setitem_failure_activates [OF missing inactive, of "7::int"] by simp
qed





end
